theory Spec2Isabelle
  imports Main "HOL-Library.Word"
begin

section \<open>The Python bindings of the sip5 code generator (sipgen/pybinding.c)\<close>

text \<open>
  The file binds the C code generator to Python: three argument convertors
  (\<open>fs_convertor\<close>, \<open>sipSpec_convertor\<close>, \<open>stringList_convertor\<close>), eight method
  wrappers built on \<open>PyArg_ParseTuple\<close>, and the diagnostic functions \<open>warning\<close>,
  \<open>fatal\<close> and \<open>fatalStart\<close> with their static flags.
\<close>

subsection \<open>Host values and errors\<close>

type_synonym bytes = string

text \<open>A C pointer to a native object; \<open>0\<close> is the null pointer.\<close>

type_synonym addr = nat

abbreviation (input) NULL :: addr where
  "NULL \<equiv> 0"

text \<open>A \<open>char *\<close>: \<open>None\<close> is the null pointer, \<open>Some b\<close> points at the bytes \<open>b\<close>.\<close>

type_synonym cstr = "bytes option"

text \<open>
  The Python objects an argument tuple may hold. A \<open>str\<close> is its list of code points;
  a capsule holds its pointer and its name (\<open>None\<close> for the name \<open>NULL\<close>).
\<close>

datatype pyobj =
    PyNone
  | PyBool bool
  | PyLong int
  | PyUnicode "nat list"
  | PyList "pyobj list"
  | PyTuple "pyobj list"
  | PyCapsule addr "string option"

text \<open>A \<open>str\<close> written as a literal: each character stands for its code point.\<close>

definition py_str :: "string \<Rightarrow> pyobj" where
  "py_str s = PyUnicode (map of_char s)"

text \<open>
  The exception left in the interpreter's error indicator when a call fails.
  \<open>ArgCountError n m\<close> is the \<open>TypeError\<close> that \<open>PyArg_ParseTuple\<close> raises when the
  format has \<open>n\<close> units and the tuple \<open>m\<close> items.
\<close>

datatype pyerr =
    TypeError string
  | ValueError string
  | OverflowError string
  | UnicodeEncodeError string
  | SystemError string
  | ArgCountError nat nat

text \<open>
  The result of a convertor \<open>int conv(PyObject *obj, T *out)\<close>: \<open>Converted v\<close> is the
  return value 1 with \<open>v\<close> stored in \<open>*out\<close>; \<open>Failed e w\<close> is the return value 0 with
  the exception \<open>e\<close> set, where \<open>w\<close> is \<open>Some v\<close> when the convertor had stored \<open>v\<close> in
  \<open>*out\<close> before it failed and \<open>None\<close> when it left \<open>*out\<close> untouched.
\<close>

datatype 'a converted = Converted 'a | Failed pyerr "'a option"

fun map_converted :: "('a \<Rightarrow> 'b) \<Rightarrow> 'a converted \<Rightarrow> 'b converted" where
  "map_converted f (Converted v) = Converted (f v)"
| "map_converted f (Failed e w) = Failed e (map_option f w)"

subsection \<open>The CPython functions the bindings call\<close>

text \<open>
  The encoders and the built-in format units of \<open>PyArg_ParseTuple\<close> belong to the
  Python runtime, not to this file; the model takes them as a parameter. Each returns
  the exception it raised or the C value it produced.
\<close>

record cpython =
  PyUnicode_EncodeFSDefault :: "pyobj \<Rightarrow> pyerr + bytes"
  PyUnicode_EncodeLocale :: "pyobj \<Rightarrow> pyerr + bytes"
  arg_I :: "pyobj \<Rightarrow> pyerr + 32 word"
  arg_s :: "pyobj \<Rightarrow> pyerr + bytes"
  arg_p :: "pyobj \<Rightarrow> pyerr + bool"
  arg_i :: "pyobj \<Rightarrow> pyerr + int"

text \<open>
  Capsules follow the C API: \<open>PyCapsule_New\<close> refuses a null pointer;
  \<open>PyCapsule_GetPointer\<close> returns \<open>NULL\<close> with \<open>ValueError\<close> set when the object is
  no capsule, when its pointer is null or when its name differs from the one asked for.
\<close>

fun PyCapsule_CheckExact :: "pyobj \<Rightarrow> bool" where
  "PyCapsule_CheckExact (PyCapsule p n) = True"
| "PyCapsule_CheckExact _ = False"

definition PyCapsule_New :: "addr \<Rightarrow> string option \<Rightarrow> pyerr + pyobj" where
  "PyCapsule_New p name =
     (if p = NULL then Inl (ValueError ''PyCapsule_New called with null pointer'')
      else Inr (PyCapsule p name))"

fun PyCapsule_GetPointer :: "pyobj \<Rightarrow> string option \<Rightarrow> pyerr + addr" where
  "PyCapsule_GetPointer (PyCapsule p n) name =
     (if p = NULL
      then Inl (ValueError ''PyCapsule_GetPointer called with invalid PyCapsule object'')
      else if n \<noteq> name
      then Inl (ValueError ''PyCapsule_GetPointer called with incorrect name'')
      else Inr p)"
| "PyCapsule_GetPointer _ name =
     Inl (ValueError ''PyCapsule_GetPointer called with invalid PyCapsule object'')"

fun PyList_Check :: "pyobj \<Rightarrow> bool" where
  "PyList_Check (PyList xs) = True"
| "PyList_Check _ = False"

fun PyList_items :: "pyobj \<Rightarrow> pyobj list" where
  "PyList_items (PyList xs) = xs"
| "PyList_items _ = []"

subsection \<open>The native string list\<close>

text \<open>\<open>stringList\<close>: a singly-linked list of C strings; \<open>SL_NULL\<close> is the null pointer.\<close>

datatype stringList = SL_NULL | SL_Node bytes stringList

text \<open>\<open>appendString\<close> walks to the null \<open>next\<close> pointer at the tail and stores the new node there.\<close>

fun appendString :: "stringList \<Rightarrow> bytes \<Rightarrow> stringList" where
  "appendString SL_NULL s = SL_Node s SL_NULL"
| "appendString (SL_Node t nxt) s = SL_Node t (appendString nxt s)"

text \<open>The strings of a list, head first.\<close>

fun strings_of :: "stringList \<Rightarrow> bytes list" where
  "strings_of SL_NULL = []"
| "strings_of (SL_Node t nxt) = t # strings_of nxt"

subsection \<open>The argument convertors\<close>

definition fs_convertor :: "cpython \<Rightarrow> pyobj \<Rightarrow> cstr converted" where
  "fs_convertor api obj =
     (if obj = PyNone then Converted None
      else case PyUnicode_EncodeFSDefault api obj of
             Inl e \<Rightarrow> Failed e None
           | Inr b \<Rightarrow> Converted (Some b))"

definition sipSpec_convertor :: "pyobj \<Rightarrow> addr converted" where
  "sipSpec_convertor obj =
     (if \<not> PyCapsule_CheckExact obj then Failed (TypeError ''parse tree expected'') None
      else case PyCapsule_GetPointer obj None of
             Inl e \<Rightarrow> Failed e (Some NULL)
           | Inr p \<Rightarrow> Converted p)"

text \<open>
  The loop of \<open>stringList_convertor\<close> over the items from index \<open>i\<close> on, with the list
  built so far in \<open>*slp\<close>.
\<close>

fun stringList_loop :: "cpython \<Rightarrow> pyobj list \<Rightarrow> stringList \<Rightarrow> stringList converted" where
  "stringList_loop api [] slp = Converted slp"
| "stringList_loop api (x # xs) slp =
     (case PyUnicode_EncodeLocale api x of
        Inl e \<Rightarrow> Failed e (Some slp)
      | Inr el \<Rightarrow> stringList_loop api xs (appendString slp el))"

definition stringList_convertor :: "cpython \<Rightarrow> pyobj \<Rightarrow> stringList converted" where
  "stringList_convertor api obj =
     (if obj = PyNone then Converted SL_NULL
      else if \<not> PyList_Check obj then Failed (TypeError ''list of str expected'') (Some SL_NULL)
      else stringList_loop api (PyList_items obj) SL_NULL)"

subsection \<open>Process state\<close>

text \<open>The \<open>KwArgs\<close> values that \<open>py_parse\<close> passes and the \<open>Warning\<close> categories.\<close>

datatype KwArgs = NoKwArgs | AllKwArgs

datatype Warning = ParserWarning | DeprecationWarning

text \<open>A \<open>FILE *\<close> argument: \<open>None\<close> is the null pointer.\<close>

datatype cfile = Stdin

text \<open>The \<open>module\<close> field of the \<open>sipSpec\<close> at an address.\<close>

datatype moduleRef = Module_of addr

text \<open>
  The value of a local C variable at the point of a call: \<open>Known v\<close> when the code
  determines that it holds \<open>v\<close>, \<open>Indeterminate\<close> when it does not (the variable
  was never written, or a store through a pointer of another type has written over it).
\<close>

datatype 'a cvar = Known 'a | Indeterminate

text \<open>
  One invocation of a function of the code generator, with its arguments in the order of
  the C call.
\<close>

datatype native_call =
    Call_parse addr "cfile option" bytes bool stringList stringList stringList KwArgs bool
  | Call_transform addr bool
  | Call_generateCode "addr cvar" "cstr cvar" cstr cstr "cstr cvar" "bool cvar" "bool cvar"
      "bool cvar" "int cvar" "stringList cvar" "stringList cvar" cstr "bool cvar" "bool cvar"
      "bytes cvar"
  | Call_generateExtracts addr stringList
  | Call_generateAPI addr moduleRef cstr
  | Call_generateXML addr moduleRef cstr
  | Call_generateTypeHints addr moduleRef cstr

text \<open>The \<open>sipSpec\<close> pointer a call receives as its first argument.\<close>

fun spec_of :: "native_call \<Rightarrow> addr cvar" where
  "spec_of (Call_parse pt f fn s v b x k p) = Known pt"
| "spec_of (Call_transform pt s) = Known pt"
| "spec_of (Call_generateCode pt a1 a2 a3 a4 a5 a6 a7 a8 a9 a10 a11 a12 a13 a14) = pt"
| "spec_of (Call_generateExtracts pt e) = Known pt"
| "spec_of (Call_generateAPI pt m f) = Known pt"
| "spec_of (Call_generateXML pt m f) = Known pt"
| "spec_of (Call_generateTypeHints pt m f) = Known pt"

text \<open>
  The global variables of the file, the two static \<open>start\<close> flags (of \<open>warning\<close> and of
  \<open>fatalStart\<close>), what has been written to \<open>stderr\<close>, and the calls made into the code
  generator so far.
\<close>

record proc =
  sipVersion :: "32 word"
  sipVersionStr :: cstr
  includeDirList :: stringList
  warnings :: bool
  warnings_are_fatal :: bool
  warning_start :: bool
  fatalStart_start :: bool
  stderr :: string
  trace :: "native_call list"

text \<open>The state at process start: the initialisers of the globals and of the statics.\<close>

definition proc_init :: proc where
  "proc_init = \<lparr> sipVersion = 0, sipVersionStr = None, includeDirList = SL_NULL,
     warnings = False, warnings_are_fatal = False, warning_start = True,
     fatalStart_start = True, stderr = [], trace = [] \<rparr>"

text \<open>A C function either returns or ends the process through \<open>exit\<close>.\<close>

datatype outcome = Returns proc | Exits int proc

subsection \<open>Diagnostics\<close>

text \<open>
  \<open>vfprintf\<close> belongs to the C library: the model takes the text it writes for a format
  and its arguments as the parameter \<open>vf\<close>.
\<close>

fun wstr :: "Warning \<Rightarrow> string" where
  "wstr ParserWarning = ''Parser warning''"
| "wstr DeprecationWarning = ''Deprecation warning''"

definition newline :: char where
  "newline = CHR 0x0A"

definition warning :: "(string \<Rightarrow> 'ap \<Rightarrow> string) \<Rightarrow> Warning \<Rightarrow> string \<Rightarrow> 'ap \<Rightarrow> proc \<Rightarrow> outcome" where
  "warning vf w fmt ap st =
     (if \<not> warnings st \<and> w \<noteq> DeprecationWarning then Returns st
      else
        let st1 = (if warning_start st
                   then st\<lparr>stderr := stderr st @ ''sip5: '' @ wstr w @ '': '',
                           warning_start := False\<rparr>
                   else st);
            st2 = st1\<lparr>stderr := stderr st1 @ vf fmt ap\<rparr>
        in if newline \<in> set fmt
           then (if warnings_are_fatal st2 then Exits 1 st2
                 else Returns (st2\<lparr>warning_start := True\<rparr>))
           else Returns st2)"

definition fatalStart :: "proc \<Rightarrow> proc" where
  "fatalStart st =
     (if fatalStart_start st
      then st\<lparr>stderr := stderr st @ ''sip5: '', fatalStart_start := False\<rparr>
      else st)"

definition fatal :: "(string \<Rightarrow> 'ap \<Rightarrow> string) \<Rightarrow> string \<Rightarrow> 'ap \<Rightarrow> proc \<Rightarrow> outcome" where
  "fatal vf fmt ap st =
     (let st1 = fatalStart st
      in Exits 1 (st1\<lparr>stderr := stderr st1 @ vf fmt ap\<rparr>))"

text \<open>A sequence of calls of \<open>warning\<close>, one after the other, until one ends the process.\<close>

fun warning_calls ::
  "(string \<Rightarrow> 'ap \<Rightarrow> string) \<Rightarrow> (Warning \<times> string \<times> 'ap) list \<Rightarrow> proc \<Rightarrow> outcome" where
  "warning_calls vf [] st = Returns st"
| "warning_calls vf ((w, fmt, ap) # cs) st =
     (case warning vf w fmt ap st of
        Exits n st' \<Rightarrow> Exits n st'
      | Returns st' \<Rightarrow> warning_calls vf cs st')"

text \<open>
  A formatter for formats made of plain characters, \<open>%s\<close> and \<open>%%\<close>, with string
  arguments: what \<open>vfprintf\<close> writes for them.
\<close>

fun printf_s :: "string \<Rightarrow> string list \<Rightarrow> string" where
  "printf_s [] args = []"
| "printf_s [c] args = [c]"
| "printf_s (c # d # ds) args =
     (if c = CHR ''%'' \<and> d = CHR ''s'' then
        (case args of [] \<Rightarrow> printf_s ds [] | a # as \<Rightarrow> a @ printf_s ds as)
      else if c = CHR ''%'' \<and> d = CHR ''%'' then CHR ''%'' # printf_s ds args
      else c # printf_s (d # ds) args)"

subsection \<open>Argument parsing\<close>

text \<open>
  The format units the wrappers use: \<open>I\<close>, \<open>s\<close>, \<open>p\<close>, \<open>i\<close>, and \<open>O&\<close> with each of the
  three convertors. A \<open>cval\<close> is the C value a unit stores through its output pointer.
\<close>

datatype fmt_unit = U_I | U_s | U_p | U_i | U_fs | U_sipSpec | U_stringList

datatype cval =
    V_I "32 word"
  | V_s bytes
  | V_p bool
  | V_i int
  | V_fs cstr
  | V_sipSpec addr
  | V_stringList stringList

text \<open>A built-in unit stores nothing when it fails.\<close>

fun builtin :: "pyerr + 'a \<Rightarrow> 'a converted" where
  "builtin (Inl e) = Failed e None"
| "builtin (Inr v) = Converted v"

fun convert_unit :: "cpython \<Rightarrow> fmt_unit \<Rightarrow> pyobj \<Rightarrow> cval converted" where
  "convert_unit api U_I obj = map_converted V_I (builtin (arg_I api obj))"
| "convert_unit api U_s obj = map_converted V_s (builtin (arg_s api obj))"
| "convert_unit api U_p obj = map_converted V_p (builtin (arg_p api obj))"
| "convert_unit api U_i obj = map_converted V_i (builtin (arg_i api obj))"
| "convert_unit api U_fs obj = map_converted V_fs (fs_convertor api obj)"
| "convert_unit api U_sipSpec obj = map_converted V_sipSpec (sipSpec_convertor obj)"
| "convert_unit api U_stringList obj = map_converted V_stringList (stringList_convertor api obj)"

text \<open>
  \<open>PyArg_ParseTuple\<close>: \<open>Parsed vs\<close> is the return value 1 with every output written;
  \<open>ParseError e ws\<close> is the return value 0 with the exception \<open>e\<close> set and \<open>ws\<close> telling,
  output by output, what had been written. The number of arguments is checked first;
  then the units are converted from left to right and the first failure ends the call.
\<close>

datatype parsed = Parsed "cval list" | ParseError pyerr "cval option list"

fun convert_args :: "cpython \<Rightarrow> fmt_unit list \<Rightarrow> pyobj list \<Rightarrow> parsed" where
  "convert_args api [] [] = Parsed []"
| "convert_args api (u # us) (a # as) =
     (case convert_unit api u a of
        Failed e w \<Rightarrow> ParseError e (w # map (\<lambda>_. None) us)
      | Converted v \<Rightarrow>
          (case convert_args api us as of
             Parsed vs \<Rightarrow> Parsed (v # vs)
           | ParseError e ws \<Rightarrow> ParseError e (Some v # ws)))"
| "convert_args api us as = ParseError (ArgCountError (length us) (length as)) (map (\<lambda>_. None) us)"

definition PyArg_ParseTuple :: "cpython \<Rightarrow> fmt_unit list \<Rightarrow> pyobj list \<Rightarrow> parsed" where
  "PyArg_ParseTuple api fmt args =
     (if length args \<noteq> length fmt
      then ParseError (ArgCountError (length fmt) (length args)) (map (\<lambda>_. None) fmt)
      else convert_args api fmt args)"

subsection \<open>The method wrappers\<close>

text \<open>
  A wrapper returns the raised exception (the C return value \<open>NULL\<close>) or the result
  object, and the new process state. A call into the code generator is recorded in
  \<open>trace\<close>; what the generator itself does is outside this file.
\<close>

type_synonym py_result = "(pyerr + pyobj) \<times> proc"

definition invoke :: "native_call \<Rightarrow> proc \<Rightarrow> proc" where
  "invoke c st = st\<lparr>trace := trace st @ [c]\<rparr>"

text \<open>
  The output pointers that \<open>py_set_globals\<close> hands to \<open>PyArg_ParseTuple\<close> are the
  addresses of the globals, so whatever a unit writes lands in the global at once.
\<close>

fun set_global :: "nat \<Rightarrow> cval \<Rightarrow> proc \<Rightarrow> proc" where
  "set_global i (V_I v) st = (if i = 0 then st\<lparr>sipVersion := v\<rparr> else st)"
| "set_global i (V_s v) st = (if i = 1 then st\<lparr>sipVersionStr := Some v\<rparr> else st)"
| "set_global i (V_stringList v) st = (if i = 2 then st\<lparr>includeDirList := v\<rparr> else st)"
| "set_global i (V_p v) st =
     (if i = 3 then st\<lparr>warnings := v\<rparr>
      else if i = 4 then st\<lparr>warnings_are_fatal := v\<rparr> else st)"
| "set_global i v st = st"

fun store_globals :: "nat \<Rightarrow> cval option list \<Rightarrow> proc \<Rightarrow> proc" where
  "store_globals i [] st = st"
| "store_globals i (None # ws) st = store_globals (Suc i) ws st"
| "store_globals i (Some v # ws) st = store_globals (Suc i) ws (set_global i v st)"

definition py_set_globals :: "cpython \<Rightarrow> pyobj list \<Rightarrow> proc \<Rightarrow> py_result" where
  "py_set_globals api args st =
     (case PyArg_ParseTuple api [U_I, U_s, U_stringList, U_p, U_p] args of
        ParseError e ws \<Rightarrow> (Inl e, store_globals 0 ws st)
      | Parsed vs \<Rightarrow> (Inr PyNone, store_globals 0 (map Some vs) st))"

text \<open>\<open>pt\<close> is the pointer that \<open>sipMalloc(sizeof (sipSpec))\<close> returns in this call.\<close>

definition py_parse :: "cpython \<Rightarrow> addr \<Rightarrow> pyobj list \<Rightarrow> proc \<Rightarrow> py_result" where
  "py_parse api pt args st =
     (case PyArg_ParseTuple api
             [U_fs, U_p, U_stringList, U_stringList, U_stringList, U_p, U_p] args of
        ParseError e ws \<Rightarrow> (Inl e, st)
      | Parsed [V_fs filename, V_p strict, V_stringList versions, V_stringList backstops,
                V_stringList xfeatures, V_p allKwArgs, V_p protHack] \<Rightarrow>
          (let file = (if filename \<noteq> None then None else Some Stdin);
               filename' = (case filename of Some f \<Rightarrow> f | None \<Rightarrow> ''stdin'');
               st' = invoke (Call_parse pt file filename' strict versions backstops xfeatures
                               (if allKwArgs then AllKwArgs else NoKwArgs) protHack) st
           in (PyCapsule_New pt None, st'))
      | Parsed _ \<Rightarrow> (Inl (SystemError ''bad format''), st))"

definition py_transform :: "cpython \<Rightarrow> pyobj list \<Rightarrow> proc \<Rightarrow> py_result" where
  "py_transform api args st =
     (case PyArg_ParseTuple api [U_sipSpec, U_p] args of
        ParseError e ws \<Rightarrow> (Inl e, st)
      | Parsed [V_sipSpec pt, V_p strict] \<Rightarrow> (Inr PyNone, invoke (Call_transform pt strict) st)
      | Parsed _ \<Rightarrow> (Inl (SystemError ''bad format''), st))"

text \<open>
  The format of \<open>py_generateCode\<close> is \<open>O&O&O&pppiO&O&ps\<close>: eleven units, for the
  twelve output pointers that follow it. The tenth unit \<open>p\<close> stores into \<open>docs\<close>; the
  eleventh unit \<open>s\<close> stores a \<open>char *\<close> through \<open>&py_debug\<close>, the address of an
  \<open>int\<close>; \<open>sipName\<close> is never written. Where a pointer is wider than an \<open>int\<close> that
  store runs past \<open>py_debug\<close> into whatever local the compiler has placed next to it,
  which may be \<open>pt\<close> or any other variable of the function. C gives such a store no
  meaning, so once all eleven units have converted none of the twelve locals has a value
  that the source determines: the call to \<open>generateCode\<close> is made with every variable
  indeterminate, and only the three literal \<open>NULL\<close> arguments are known.
\<close>

definition py_generateCode :: "cpython \<Rightarrow> pyobj list \<Rightarrow> proc \<Rightarrow> py_result" where
  "py_generateCode api args st =
     (case PyArg_ParseTuple api
             [U_sipSpec, U_fs, U_fs, U_p, U_p, U_p, U_i, U_stringList, U_stringList,
              U_p, U_s] args of
        ParseError e ws \<Rightarrow> (Inl e, st)
      | Parsed [V_sipSpec pt, V_fs codeDir, V_fs srcSuffix, V_p exceptions, V_p tracing,
                V_p releaseGIL, V_i parts, V_stringList versions, V_stringList xfeatures,
                V_p docs, V_s into_py_debug] \<Rightarrow>
          (Inr PyNone,
           invoke (Call_generateCode Indeterminate Indeterminate None None Indeterminate
                     Indeterminate Indeterminate Indeterminate Indeterminate Indeterminate
                     Indeterminate None Indeterminate Indeterminate Indeterminate) st)
      | Parsed _ \<Rightarrow> (Inl (SystemError ''bad format''), st))"

definition py_generateExtracts :: "cpython \<Rightarrow> pyobj list \<Rightarrow> proc \<Rightarrow> py_result" where
  "py_generateExtracts api args st =
     (case PyArg_ParseTuple api [U_sipSpec, U_stringList] args of
        ParseError e ws \<Rightarrow> (Inl e, st)
      | Parsed [V_sipSpec pt, V_stringList extracts] \<Rightarrow>
          (Inr PyNone, invoke (Call_generateExtracts pt extracts) st)
      | Parsed _ \<Rightarrow> (Inl (SystemError ''bad format''), st))"

definition py_generateAPI :: "cpython \<Rightarrow> pyobj list \<Rightarrow> proc \<Rightarrow> py_result" where
  "py_generateAPI api args st =
     (case PyArg_ParseTuple api [U_sipSpec, U_fs] args of
        ParseError e ws \<Rightarrow> (Inl e, st)
      | Parsed [V_sipSpec pt, V_fs apiFile] \<Rightarrow>
          (Inr PyNone, invoke (Call_generateAPI pt (Module_of pt) apiFile) st)
      | Parsed _ \<Rightarrow> (Inl (SystemError ''bad format''), st))"

definition py_generateXML :: "cpython \<Rightarrow> pyobj list \<Rightarrow> proc \<Rightarrow> py_result" where
  "py_generateXML api args st =
     (case PyArg_ParseTuple api [U_sipSpec, U_fs] args of
        ParseError e ws \<Rightarrow> (Inl e, st)
      | Parsed [V_sipSpec pt, V_fs xmlFile] \<Rightarrow>
          (Inr PyNone, invoke (Call_generateXML pt (Module_of pt) xmlFile) st)
      | Parsed _ \<Rightarrow> (Inl (SystemError ''bad format''), st))"

definition py_generateTypeHints :: "cpython \<Rightarrow> pyobj list \<Rightarrow> proc \<Rightarrow> py_result" where
  "py_generateTypeHints api args st =
     (case PyArg_ParseTuple api [U_sipSpec, U_fs] args of
        ParseError e ws \<Rightarrow> (Inl e, st)
      | Parsed [V_sipSpec pt, V_fs pyiFile] \<Rightarrow>
          (Inr PyNone, invoke (Call_generateTypeHints pt (Module_of pt) pyiFile) st)
      | Parsed _ \<Rightarrow> (Inl (SystemError ''bad format''), st))"

text \<open>The method table of the module.\<close>

datatype py_method =
    M_set_globals | M_parse | M_transform | M_generateCode | M_generateExtracts
  | M_generateAPI | M_generateXML | M_generateTypeHints

fun call_method :: "cpython \<Rightarrow> addr \<Rightarrow> py_method \<Rightarrow> pyobj list \<Rightarrow> proc \<Rightarrow> py_result" where
  "call_method api pt M_set_globals = py_set_globals api"
| "call_method api pt M_parse = py_parse api pt"
| "call_method api pt M_transform = py_transform api"
| "call_method api pt M_generateCode = py_generateCode api"
| "call_method api pt M_generateExtracts = py_generateExtracts api"
| "call_method api pt M_generateAPI = py_generateAPI api"
| "call_method api pt M_generateXML = py_generateXML api"
| "call_method api pt M_generateTypeHints = py_generateTypeHints api"

text \<open>The format each wrapper passes to \<open>PyArg_ParseTuple\<close>.\<close>

fun format_of :: "py_method \<Rightarrow> fmt_unit list" where
  "format_of M_set_globals = [U_I, U_s, U_stringList, U_p, U_p]"
| "format_of M_parse = [U_fs, U_p, U_stringList, U_stringList, U_stringList, U_p, U_p]"
| "format_of M_transform = [U_sipSpec, U_p]"
| "format_of M_generateCode =
     [U_sipSpec, U_fs, U_fs, U_p, U_p, U_p, U_i, U_stringList, U_stringList, U_p, U_s]"
| "format_of M_generateExtracts = [U_sipSpec, U_stringList]"
| "format_of M_generateAPI = [U_sipSpec, U_fs]"
| "format_of M_generateXML = [U_sipSpec, U_fs]"
| "format_of M_generateTypeHints = [U_sipSpec, U_fs]"

subsection \<open>A sample runtime\<close>

text \<open>
  One instance of the runtime, for evaluating the wrappers on concrete arguments: an
  interpreter whose locale and filesystem encodings are ASCII with the strict error
  handler. \<open>PyUnicode_EncodeLocale\<close> refuses an embedded null character under every
  locale; every encoder refuses an object that is no \<open>str\<close>.
\<close>

definition ascii_strict :: "nat list \<Rightarrow> pyerr + bytes" where
  "ascii_strict cps =
     (if list_all (\<lambda>c. c < 128) cps then Inr (map char_of cps)
      else Inl (UnicodeEncodeError ''ordinal not in range(128)''))"

fun sample_EncodeFSDefault :: "pyobj \<Rightarrow> pyerr + bytes" where
  "sample_EncodeFSDefault (PyUnicode cps) = ascii_strict cps"
| "sample_EncodeFSDefault _ = Inl (TypeError ''bad argument type for built-in operation'')"

fun sample_EncodeLocale :: "pyobj \<Rightarrow> pyerr + bytes" where
  "sample_EncodeLocale (PyUnicode cps) =
     (if 0 \<in> set cps then Inl (ValueError ''embedded null character'')
      else ascii_strict cps)"
| "sample_EncodeLocale _ = Inl (TypeError ''bad argument type for built-in operation'')"

fun sample_I :: "pyobj \<Rightarrow> pyerr + 32 word" where
  "sample_I (PyLong n) = Inr (word_of_int n)"
| "sample_I (PyBool b) = Inr (if b then 1 else 0)"
| "sample_I _ = Inl (TypeError ''an integer is required'')"

fun sample_s :: "pyobj \<Rightarrow> pyerr + bytes" where
  "sample_s (PyUnicode cps) =
     (if 0 \<in> set cps then Inl (ValueError ''embedded null character'')
      else ascii_strict cps)"
| "sample_s _ = Inl (TypeError ''must be str'')"

fun sample_p :: "pyobj \<Rightarrow> pyerr + bool" where
  "sample_p PyNone = Inr False"
| "sample_p (PyBool b) = Inr b"
| "sample_p (PyLong n) = Inr (n \<noteq> 0)"
| "sample_p (PyUnicode cps) = Inr (cps \<noteq> [])"
| "sample_p (PyList xs) = Inr (xs \<noteq> [])"
| "sample_p (PyTuple xs) = Inr (xs \<noteq> [])"
| "sample_p (PyCapsule p n) = Inr True"

definition int_in_range :: "int \<Rightarrow> pyerr + int" where
  "int_in_range n =
     (if n < - 2147483648 then Inl (OverflowError ''signed integer is less than minimum'')
      else if 2147483647 < n then Inl (OverflowError ''signed integer is greater than maximum'')
      else Inr n)"

fun sample_i :: "pyobj \<Rightarrow> pyerr + int" where
  "sample_i (PyLong n) = int_in_range n"
| "sample_i (PyBool b) = Inr (if b then 1 else 0)"
| "sample_i _ = Inl (TypeError ''an integer is required'')"

definition sample_cpython :: cpython where
  "sample_cpython = \<lparr> PyUnicode_EncodeFSDefault = sample_EncodeFSDefault,
     PyUnicode_EncodeLocale = sample_EncodeLocale, arg_I = sample_I, arg_s = sample_s,
     arg_p = sample_p, arg_i = sample_i \<rparr>"

text \<open>The format unit that stores a given value.\<close>

fun unit_of :: "cval \<Rightarrow> fmt_unit" where
  "unit_of (V_I v) = U_I"
| "unit_of (V_s v) = U_s"
| "unit_of (V_p v) = U_p"
| "unit_of (V_i v) = U_i"
| "unit_of (V_fs v) = U_fs"
| "unit_of (V_sipSpec v) = U_sipSpec"
| "unit_of (V_stringList v) = U_stringList"

section \<open>Properties\<close>

subsection \<open>The string list\<close>

lemma strings_of_appendString: "strings_of (appendString sl s) = strings_of sl @ [s]"
  by (induction sl) simp_all

lemma strings_of_inject: "strings_of a = strings_of b \<Longrightarrow> a = b"
proof (induction a arbitrary: b)
  case SL_NULL
  then show ?case by (cases b) simp_all
next
  case (SL_Node t nxt)
  then show ?case by (cases b) auto
qed

lemma stringList_loop_all_encoded:
  "list_all2 (\<lambda>x b. PyUnicode_EncodeLocale api x = Inr b) xs bs \<Longrightarrow>
   \<exists>sl. stringList_loop api xs slp = Converted sl \<and> strings_of sl = strings_of slp @ bs"
proof (induction xs arbitrary: slp bs)
  case Nil
  then show ?case by simp
next
  case (Cons x xs)
  from Cons.prems obtain b bs' where bs: "bs = b # bs'"
    and b: "PyUnicode_EncodeLocale api x = Inr b"
    and rest: "list_all2 (\<lambda>x b. PyUnicode_EncodeLocale api x = Inr b) xs bs'"
    by (auto simp: list_all2_Cons1)
  from Cons.IH [OF rest, of "appendString slp b"] obtain sl where
    "stringList_loop api xs (appendString slp b) = Converted sl"
    "strings_of sl = strings_of (appendString slp b) @ bs'"
    by blast
  with b bs show ?case by (simp add: strings_of_appendString)
qed

lemma stringList_loop_first_failure:
  assumes "list_all2 (\<lambda>y b. PyUnicode_EncodeLocale api y = Inr b) pre bs"
    and "PyUnicode_EncodeLocale api x = Inl e"
  shows "\<exists>sl. stringList_loop api (pre @ x # post) slp = Failed e (Some sl) \<and>
           strings_of sl = strings_of slp @ bs"
  using assms
proof (induction pre arbitrary: slp bs)
  case Nil
  then show ?case by simp
next
  case (Cons y pre)
  from Cons.prems(1) obtain b bs' where bs: "bs = b # bs'"
    and b: "PyUnicode_EncodeLocale api y = Inr b"
    and rest: "list_all2 (\<lambda>y b. PyUnicode_EncodeLocale api y = Inr b) pre bs'"
    by (auto simp: list_all2_Cons1)
  from Cons.IH [OF rest Cons.prems(2), of "appendString slp b"] obtain sl where
    "stringList_loop api (pre @ x # post) (appendString slp b) = Failed e (Some sl)"
    "strings_of sl = strings_of (appendString slp b) @ bs'"
    by blast
  with b bs show ?case by (simp add: strings_of_appendString)
qed

lemma encoded_prefix:
  "\<forall>y\<in>set pre. \<not> isl (PyUnicode_EncodeLocale api y) \<Longrightarrow>
   \<exists>bs. list_all2 (\<lambda>y b. PyUnicode_EncodeLocale api y = Inr b) pre bs"
proof (induction pre)
  case Nil
  then show ?case by simp
next
  case (Cons y pre)
  then obtain bs where "list_all2 (\<lambda>y b. PyUnicode_EncodeLocale api y = Inr b) pre bs"
    by auto
  moreover from Cons.prems obtain b where "PyUnicode_EncodeLocale api y = Inr b"
    by (cases "PyUnicode_EncodeLocale api y") auto
  ultimately have "list_all2 (\<lambda>y b. PyUnicode_EncodeLocale api y = Inr b) (y # pre) (b # bs)"
    by simp
  then show ?case by blast
qed

subsection \<open>The path convertor\<close>

text \<open>
  C5. \<open>fs_convertor\<close> maps \<open>None\<close> to the null pointer and succeeds. For a \<open>str\<close>,
  the empty one included, it never yields the null pointer: when the filesystem encoder
  returns bytes \<open>b\<close> the result is a pointer to \<open>b\<close>, and when the encoder fails the
  convertor fails with the encoder's exception and stores nothing.
\<close>

theorem fs_convertor_none_or_text:
  "fs_convertor api PyNone = Converted None \<and>
   fs_convertor api (PyUnicode s) \<noteq> Converted None \<and>
   (PyUnicode_EncodeFSDefault api (PyUnicode s) = Inr b \<longrightarrow>
      fs_convertor api (PyUnicode s) = Converted (Some b)) \<and>
   (PyUnicode_EncodeFSDefault api (PyUnicode []) = Inr b0 \<longrightarrow>
      fs_convertor api (PyUnicode []) = Converted (Some b0)) \<and>
   (PyUnicode_EncodeFSDefault api (PyUnicode s) = Inl e \<longrightarrow>
      fs_convertor api (PyUnicode s) = Failed e None)"
  by (simp add: fs_convertor_def split: sum.splits)

theorem fs_convertor_none_or_text_witness:
  "fs_convertor sample_cpython PyNone = Converted None \<and>
   fs_convertor sample_cpython (PyUnicode [47, 116]) = Converted (Some ''/t'') \<and>
   fs_convertor sample_cpython (PyUnicode []) = Converted (Some []) \<and>
   fs_convertor sample_cpython (PyUnicode [233]) =
     Failed (UnicodeEncodeError ''ordinal not in range(128)'') None"
proof -
  have a: "PyUnicode_EncodeFSDefault sample_cpython (PyUnicode [47, 116]) = Inr ''/t''"
    by code_simp
  have b: "PyUnicode_EncodeFSDefault sample_cpython (PyUnicode []) = Inr []"
    by code_simp
  have c: "PyUnicode_EncodeFSDefault sample_cpython (PyUnicode [233]) =
             Inl (UnicodeEncodeError ''ordinal not in range(128)'')"
    by code_simp
  from fs_convertor_none_or_text [of sample_cpython "[47, 116]" "''/t''" "[]"
      "UnicodeEncodeError ''ordinal not in range(128)''"] a b
  have "fs_convertor sample_cpython PyNone = Converted None"
    "fs_convertor sample_cpython (PyUnicode [47, 116]) = Converted (Some ''/t'')"
    "fs_convertor sample_cpython (PyUnicode []) = Converted (Some [])"
    by blast+
  moreover from fs_convertor_none_or_text [of sample_cpython "[233]" "[]" "[]"
      "UnicodeEncodeError ''ordinal not in range(128)''"] c
  have "fs_convertor sample_cpython (PyUnicode [233]) =
          Failed (UnicodeEncodeError ''ordinal not in range(128)'') None"
    by blast
  ultimately show ?thesis by blast
qed

subsection \<open>The string-list convertor\<close>

text \<open>
  C2, as the code has it. \<open>None\<close> converts to the null list. A list whose items the
  locale encoder all accepts converts to a list with one byte string per item, in the
  order of the items: the \<open>i\<close>-th string is the encoding of the \<open>i\<close>-th item.
\<close>

theorem stringList_convertor_encodable_list:
  "stringList_convertor api PyNone = Converted SL_NULL \<and>
   (list_all2 (\<lambda>x b. PyUnicode_EncodeLocale api x = Inr b) xs bs \<longrightarrow>
     (\<exists>sl. stringList_convertor api (PyList xs) = Converted sl \<and> strings_of sl = bs \<and>
           length (strings_of sl) = length xs \<and>
           (\<forall>i<length xs. PyUnicode_EncodeLocale api (xs ! i) = Inr (strings_of sl ! i))))"
proof (intro conjI impI)
  show "stringList_convertor api PyNone = Converted SL_NULL"
    by (simp add: stringList_convertor_def)
next
  assume enc: "list_all2 (\<lambda>x b. PyUnicode_EncodeLocale api x = Inr b) xs bs"
  from stringList_loop_all_encoded [OF enc, of SL_NULL] obtain sl where
    sl: "stringList_loop api xs SL_NULL = Converted sl" "strings_of sl = bs"
    by auto
  have "stringList_convertor api (PyList xs) = Converted sl"
    using sl(1) by (simp add: stringList_convertor_def)
  moreover have "length bs = length xs"
    using enc by (simp add: list_all2_lengthD)
  moreover have "\<forall>i<length xs. PyUnicode_EncodeLocale api (xs ! i) = Inr (bs ! i)"
    using enc by (simp add: list_all2_conv_all_nth)
  ultimately show "\<exists>sl. stringList_convertor api (PyList xs) = Converted sl \<and> strings_of sl = bs \<and>
           length (strings_of sl) = length xs \<and>
           (\<forall>i<length xs. PyUnicode_EncodeLocale api (xs ! i) = Inr (strings_of sl ! i))"
    using sl(2) by auto
qed

theorem stringList_convertor_encodable_list_witness:
  "stringList_convertor sample_cpython PyNone = Converted SL_NULL \<and>
   stringList_convertor sample_cpython (PyList [py_str ''ab'', py_str ''c'']) =
     Converted (SL_Node ''ab'' (SL_Node ''c'' SL_NULL))"
proof -
  have enc: "list_all2 (\<lambda>x b. PyUnicode_EncodeLocale sample_cpython x = Inr b)
               [py_str ''ab'', py_str ''c''] [''ab'', ''c'']"
    by code_simp
  from stringList_convertor_encodable_list [of sample_cpython "[py_str ''ab'', py_str ''c'']" "[''ab'', ''c'']"] enc
  obtain sl where "stringList_convertor sample_cpython PyNone = Converted SL_NULL"
    "stringList_convertor sample_cpython (PyList [py_str ''ab'', py_str ''c'']) = Converted sl"
    "strings_of sl = [''ab'', ''c'']"
    by blast
  moreover have "sl = SL_Node ''ab'' (SL_Node ''c'' SL_NULL)"
    using \<open>strings_of sl = [''ab'', ''c'']\<close> by (intro strings_of_inject) simp
  ultimately show ?thesis by simp
qed

text \<open>
  C2 as stated fails: a list of \<open>str\<close> does not always convert. The one-item list
  holding the text \<open>a\0b\<close> is refused, since the locale encoder rejects an embedded
  null character.
\<close>

theorem stringList_convertor_embedded_null:
  "stringList_convertor sample_cpython (PyList [PyUnicode [97, 0, 98]]) =
     Failed (ValueError ''embedded null character'') (Some SL_NULL)"
  by code_simp

text \<open>
  C7, as the code has it. An argument that is neither \<open>None\<close> nor a list fails with
  \<open>TypeError\<close> and the message \<open>list of str expected\<close>, and the output variable
  holds the null list.
\<close>

theorem stringList_convertor_not_a_list:
  "obj \<noteq> PyNone \<and> \<not> PyList_Check obj \<longrightarrow>
   stringList_convertor api obj = Failed (TypeError ''list of str expected'') (Some SL_NULL)"
  by (simp add: stringList_convertor_def)

theorem stringList_convertor_not_a_list_witness:
  "stringList_convertor sample_cpython (PyLong 3) =
     Failed (TypeError ''list of str expected'') (Some SL_NULL)"
  using stringList_convertor_not_a_list [of "PyLong 3" sample_cpython] by simp

text \<open>
  C7 as stated fails for a list with an item that is no \<open>str\<close>: the list passes the
  type check, the failure comes from the encoder with the encoder's own exception, and
  the output variable holds the strings encoded before the failing item.
\<close>

theorem stringList_convertor_mixed_list:
  "stringList_convertor sample_cpython (PyList [py_str ''ab'', PyLong 1]) =
     Failed (TypeError ''bad argument type for built-in operation'')
       (Some (SL_Node ''ab'' SL_NULL))"
  by code_simp

text \<open>
  C8. When the locale encoder refuses some item of a list, the convertor fails with the
  exception of the first refused item, and the output variable holds exactly the
  encodings of the items before it: nothing at or after that item is appended.
\<close>

theorem stringList_convertor_first_failure:
  assumes "\<exists>x\<in>set xs. isl (PyUnicode_EncodeLocale api x)"
  shows "\<exists>pre x post e sl.
           xs = pre @ x # post \<and>
           (\<forall>y\<in>set pre. \<not> isl (PyUnicode_EncodeLocale api y)) \<and>
           PyUnicode_EncodeLocale api x = Inl e \<and>
           stringList_convertor api (PyList xs) = Failed e (Some sl) \<and>
           list_all2 (\<lambda>y b. PyUnicode_EncodeLocale api y = Inr b) pre (strings_of sl)"
proof -
  from split_list_first_prop [OF assms] obtain pre x post where
    xs: "xs = pre @ x # post" and x: "isl (PyUnicode_EncodeLocale api x)"
    and pre: "\<forall>y\<in>set pre. \<not> isl (PyUnicode_EncodeLocale api y)"
    by blast
  from x obtain e where e: "PyUnicode_EncodeLocale api x = Inl e"
    by (cases "PyUnicode_EncodeLocale api x") auto
  from encoded_prefix [OF pre] obtain bs where
    bs: "list_all2 (\<lambda>y b. PyUnicode_EncodeLocale api y = Inr b) pre bs"
    by blast
  from stringList_loop_first_failure [OF bs e, of post SL_NULL] obtain sl where
    sl: "stringList_loop api (pre @ x # post) SL_NULL = Failed e (Some sl)" "strings_of sl = bs"
    by auto
  have "stringList_convertor api (PyList xs) = Failed e (Some sl)"
    using sl(1) xs by (simp add: stringList_convertor_def)
  with xs pre e bs sl(2) show ?thesis by blast
qed

theorem stringList_convertor_first_failure_witness:
  "(\<exists>x\<in>set [py_str ''ab'', PyUnicode [97, 0, 98], py_str ''c''].
      isl (PyUnicode_EncodeLocale sample_cpython x)) \<and>
   (\<exists>pre x post e sl.
      [py_str ''ab'', PyUnicode [97, 0, 98], py_str ''c''] = pre @ x # post \<and>
      (\<forall>y\<in>set pre. \<not> isl (PyUnicode_EncodeLocale sample_cpython y)) \<and>
      PyUnicode_EncodeLocale sample_cpython x = Inl e \<and>
      stringList_convertor sample_cpython
        (PyList [py_str ''ab'', PyUnicode [97, 0, 98], py_str ''c'']) = Failed e (Some sl) \<and>
      list_all2 (\<lambda>y b. PyUnicode_EncodeLocale sample_cpython y = Inr b) pre (strings_of sl)) \<and>
   stringList_convertor sample_cpython
     (PyList [py_str ''ab'', PyUnicode [97, 0, 98], py_str ''c'']) =
     Failed (ValueError ''embedded null character'') (Some (SL_Node ''ab'' SL_NULL))"
proof -
  have h: "\<exists>x\<in>set [py_str ''ab'', PyUnicode [97, 0, 98], py_str ''c''].
             isl (PyUnicode_EncodeLocale sample_cpython x)"
    by code_simp
  have v: "stringList_convertor sample_cpython
     (PyList [py_str ''ab'', PyUnicode [97, 0, 98], py_str ''c'']) =
     Failed (ValueError ''embedded null character'') (Some (SL_Node ''ab'' SL_NULL))"
    by code_simp
  from h stringList_convertor_first_failure [OF h] v show ?thesis by blast
qed

subsection \<open>Diagnostics\<close>

lemma warning_suppressed:
  "\<not> warnings st \<Longrightarrow> warning vf ParserWarning fmt ap st = Returns st"
  by (simp add: warning_def)

lemma warning_emitted:
  assumes "warnings st \<or> w = DeprecationWarning"
  shows "warning vf w fmt ap st =
     (let st' = st\<lparr>stderr := stderr st
                    @ (if warning_start st then ''sip5: '' @ wstr w @ '': '' else []) @ vf fmt ap,
                  warning_start := False\<rparr>
      in if newline \<in> set fmt
         then (if warnings_are_fatal st then Exits 1 st' else Returns (st'\<lparr>warning_start := True\<rparr>))
         else Returns st')"
  using assms by (auto simp: warning_def Let_def)

lemma warning_keeps_flags:
  "warning vf w fmt ap st = Returns st' \<Longrightarrow>
   warnings st' = warnings st \<and> warnings_are_fatal st' = warnings_are_fatal st"
  by (auto simp: warning_def Let_def split: if_splits)

lemma warning_fragments:
  assumes "warnings st \<or> w = DeprecationWarning"
    and "\<forall>fr\<in>set frs. newline \<notin> set (fst fr)"
  shows "warning_calls vf (map (Pair w) frs) st =
     Returns (st\<lparr>stderr := stderr st
                  @ (if frs \<noteq> [] \<and> warning_start st then ''sip5: '' @ wstr w @ '': '' else [])
                  @ concat (map (\<lambda>fr. vf (fst fr) (snd fr)) frs),
                warning_start := warning_start st \<and> frs = []\<rparr>)"
  using assms
proof (induction frs arbitrary: st)
  case Nil
  then show ?case by simp
next
  case (Cons fr frs)
  obtain f a where fr: "fr = (f, a)" by (cases fr)
  let ?st1 = "st\<lparr>stderr := stderr st
                    @ (if warning_start st then ''sip5: '' @ wstr w @ '': '' else [])
                    @ vf (fst fr) (snd fr),
                  warning_start := False\<rparr>"
  have step: "warning vf w (fst fr) (snd fr) st = Returns ?st1"
    using Cons.prems by (simp add: warning_emitted Let_def)
  have "warnings ?st1 \<or> w = DeprecationWarning"
    using Cons.prems(1) by simp
  from Cons.IH [OF this] Cons.prems(2)
  have "warning_calls vf (map (Pair w) frs) ?st1 =
     Returns (?st1\<lparr>stderr := stderr ?st1
                  @ (if frs \<noteq> [] \<and> warning_start ?st1 then ''sip5: '' @ wstr w @ '': '' else [])
                  @ concat (map (\<lambda>fr. vf (fst fr) (snd fr)) frs),
                warning_start := warning_start ?st1 \<and> frs = []\<rparr>)"
    by simp
  then show ?case using step by (simp add: fr)
qed

lemma warning_calls_append:
  "warning_calls vf (xs @ ys) st =
     (case warning_calls vf xs st of
        Exits n st' \<Rightarrow> Exits n st'
      | Returns st' \<Rightarrow> warning_calls vf ys st')"
proof (induction xs arbitrary: st)
  case Nil
  then show ?case by simp
next
  case (Cons c xs)
  obtain w f a where c: "c = (w, f, a)" by (cases c)
  show ?case using Cons.IH by (simp add: c split: outcome.splits)
qed

lemma warning_calls_skip_suppressed:
  "\<not> warnings st \<Longrightarrow>
   warning_calls vf cs st = warning_calls vf (filter (\<lambda>c. fst c \<noteq> ParserWarning) cs) st"
proof (induction cs arbitrary: st)
  case Nil
  then show ?case by simp
next
  case (Cons c cs)
  obtain w f a where c: "c = (w, f, a)" by (cases c)
  show ?case
  proof (cases "w = ParserWarning")
    case True
    then show ?thesis using Cons by (simp add: c warning_suppressed)
  next
    case False
    have "\<And>st'. warning vf w f a st = Returns st' \<Longrightarrow> \<not> warnings st'"
      using Cons.prems by (auto dest: warning_keeps_flags)
    then show ?thesis using False Cons.IH by (simp add: c split: outcome.splits)
  qed
qed

text \<open>
  C3, as the code has it. A \<open>ParserWarning\<close> reported while \<open>warnings\<close> is false
  returns with the state as it was: nothing is written. A \<open>DeprecationWarning\<close> is
  written whatever the value of \<open>warnings\<close>, after its label when a message starts; so
  is a \<open>ParserWarning\<close> when \<open>warnings\<close> is true. Both categories treat
  \<open>warnings_are_fatal\<close> alike: a call that is not suppressed ends the process with
  status 1 exactly when the flag is set and the format string holds a newline, and
  returns otherwise, whatever the category and whatever the arguments bring into the
  text.
\<close>

theorem warning_categories:
  "(\<not> warnings st \<longrightarrow> warning vf ParserWarning fmt ap st = Returns st) \<and>
   (\<exists>st'. (warning vf DeprecationWarning fmt ap st = Returns st' \<or>
           warning vf DeprecationWarning fmt ap st = Exits 1 st') \<and>
          stderr st' = stderr st
            @ (if warning_start st then ''sip5: Deprecation warning: '' else []) @ vf fmt ap) \<and>
   (warnings st \<longrightarrow>
     (\<exists>st'. (warning vf ParserWarning fmt ap st = Returns st' \<or>
             warning vf ParserWarning fmt ap st = Exits 1 st') \<and>
            stderr st' = stderr st
              @ (if warning_start st then ''sip5: Parser warning: '' else []) @ vf fmt ap)) \<and>
   (warnings st \<or> w = DeprecationWarning \<longrightarrow>
     ((\<exists>st'. warning vf w fmt ap st = Exits 1 st') \<longleftrightarrow>
        newline \<in> set fmt \<and> warnings_are_fatal st) \<and>
     ((\<exists>st'. warning vf w fmt ap st = Returns st') \<longleftrightarrow>
        \<not> (newline \<in> set fmt \<and> warnings_are_fatal st)))"
proof (intro conjI impI)
  show "\<not> warnings st \<Longrightarrow> warning vf ParserWarning fmt ap st = Returns st"
    by (rule warning_suppressed)
next
  show "\<exists>st'. (warning vf DeprecationWarning fmt ap st = Returns st' \<or>
           warning vf DeprecationWarning fmt ap st = Exits 1 st') \<and>
          stderr st' = stderr st
            @ (if warning_start st then ''sip5: Deprecation warning: '' else []) @ vf fmt ap"
    by (simp add: warning_emitted Let_def)
next
  assume "warnings st"
  then show "\<exists>st'. (warning vf ParserWarning fmt ap st = Returns st' \<or>
             warning vf ParserWarning fmt ap st = Exits 1 st') \<and>
            stderr st' = stderr st
              @ (if warning_start st then ''sip5: Parser warning: '' else []) @ vf fmt ap"
    by (simp add: warning_emitted Let_def)
next
  assume "warnings st \<or> w = DeprecationWarning"
  then show "(\<exists>st'. warning vf w fmt ap st = Exits 1 st') \<longleftrightarrow>
        newline \<in> set fmt \<and> warnings_are_fatal st"
    by (simp add: warning_emitted Let_def)
next
  assume "warnings st \<or> w = DeprecationWarning"
  then show "(\<exists>st'. warning vf w fmt ap st = Returns st') \<longleftrightarrow>
        \<not> (newline \<in> set fmt \<and> warnings_are_fatal st)"
    by (simp add: warning_emitted Let_def)
qed

theorem warning_categories_witness:
  "\<not> warnings proc_init \<and>
   warning printf_s ParserWarning ''x\<newline>'' [] proc_init = Returns proc_init \<and>
   (\<exists>st'. warning printf_s DeprecationWarning ''x\<newline>'' []
            (proc_init\<lparr>warnings_are_fatal := True\<rparr>) = Exits 1 st') \<and>
   (\<exists>st'. warning printf_s ParserWarning ''x\<newline>'' []
            (proc_init\<lparr>warnings := True, warnings_are_fatal := True\<rparr>) = Exits 1 st')"
proof -
  have off: "\<not> warnings proc_init"
    by (simp add: proc_init_def)
  have nl: "newline \<in> set ''x\<newline>''"
    by (simp add: newline_def)
  have "warning printf_s ParserWarning ''x\<newline>'' [] proc_init = Returns proc_init"
    using warning_categories [of proc_init printf_s "''x\<newline>''" "[]" ParserWarning] off
    by blast
  moreover have "\<exists>st'. warning printf_s DeprecationWarning ''x\<newline>'' []
            (proc_init\<lparr>warnings_are_fatal := True\<rparr>) = Exits 1 st'"
    using warning_categories [of "proc_init\<lparr>warnings_are_fatal := True\<rparr>" printf_s
        "''x\<newline>''" "[]" DeprecationWarning] nl
    by simp
  moreover have "\<exists>st'. warning printf_s ParserWarning ''x\<newline>'' []
            (proc_init\<lparr>warnings := True, warnings_are_fatal := True\<rparr>) = Exits 1 st'"
    using warning_categories [of "proc_init\<lparr>warnings := True, warnings_are_fatal := True\<rparr>"
        printf_s "''x\<newline>''" "[]" ParserWarning] nl
    by simp
  ultimately show ?thesis using off by blast
qed

text \<open>
  C3 as stated fails for a message that is complete through an argument: with
  \<open>warnings_are_fatal\<close> set, the report of the format \<open>%s\<close> with the argument
  \<open>old\<newline>\<close> writes a whole line, for a \<open>DeprecationWarning\<close> as for a
  \<open>ParserWarning\<close>, and the call returns instead of ending the process.
\<close>

theorem completed_warning_does_not_exit:
  "newline \<in> set (printf_s ''%s'' [''old\<newline>'']) \<and>
   warning printf_s DeprecationWarning ''%s'' [''old\<newline>'']
     (proc_init\<lparr>warnings_are_fatal := True\<rparr>) =
     Returns (proc_init\<lparr>warnings_are_fatal := True,
                stderr := ''sip5: Deprecation warning: old\<newline>'', warning_start := False\<rparr>) \<and>
   warning printf_s ParserWarning ''%s'' [''old\<newline>'']
     (proc_init\<lparr>warnings := True, warnings_are_fatal := True\<rparr>) =
     Returns (proc_init\<lparr>warnings := True, warnings_are_fatal := True,
                stderr := ''sip5: Parser warning: old\<newline>'', warning_start := False\<rparr>)"
  by (simp add: warning_def proc_init_def newline_def Let_def)

text \<open>
  C4, as the code has it. The end of a message is decided on the format string, not on
  the formatted text. For a call that is not suppressed and whose format holds a
  newline: with \<open>warnings_are_fatal\<close> set the process exits with status 1 once the
  text is written; otherwise the call returns with the \<open>start\<close> flag set again, so the
  next report begins with a label. A format without a newline leaves the flag cleared.
  A message reported in fragments of one category, whose last format alone holds a
  newline, is written with its label once, before the first fragment.
\<close>

theorem warning_completes_on_format_newline:
  assumes "warnings st \<or> w = DeprecationWarning"
  shows "(newline \<in> set fmt \<and> warnings_are_fatal st \<longrightarrow>
            warning vf w fmt ap st =
              Exits 1 (st\<lparr>stderr := stderr st
                   @ (if warning_start st then ''sip5: '' @ wstr w @ '': '' else []) @ vf fmt ap,
                 warning_start := False\<rparr>)) \<and>
         (newline \<in> set fmt \<and> \<not> warnings_are_fatal st \<longrightarrow>
            warning vf w fmt ap st =
              Returns (st\<lparr>stderr := stderr st
                   @ (if warning_start st then ''sip5: '' @ wstr w @ '': '' else []) @ vf fmt ap,
                 warning_start := True\<rparr>)) \<and>
         (newline \<notin> set fmt \<longrightarrow>
            warning vf w fmt ap st =
              Returns (st\<lparr>stderr := stderr st
                   @ (if warning_start st then ''sip5: '' @ wstr w @ '': '' else []) @ vf fmt ap,
                 warning_start := False\<rparr>)) \<and>
         (warning_start st \<and> (\<forall>fr\<in>set frs. newline \<notin> set (fst fr)) \<and> newline \<in> set fmt \<longrightarrow>
            warning_calls vf (map (Pair w) frs @ [(w, fmt, ap)]) st =
              (if warnings_are_fatal st
               then Exits 1 (st\<lparr>stderr := stderr st @ ''sip5: '' @ wstr w @ '': ''
                     @ concat (map (\<lambda>fr. vf (fst fr) (snd fr)) frs) @ vf fmt ap,
                   warning_start := False\<rparr>)
               else Returns (st\<lparr>stderr := stderr st @ ''sip5: '' @ wstr w @ '': ''
                     @ concat (map (\<lambda>fr. vf (fst fr) (snd fr)) frs) @ vf fmt ap,
                   warning_start := True\<rparr>)))"
proof (intro conjI impI)
  show "newline \<in> set fmt \<and> warnings_are_fatal st \<Longrightarrow>
            warning vf w fmt ap st =
              Exits 1 (st\<lparr>stderr := stderr st
                   @ (if warning_start st then ''sip5: '' @ wstr w @ '': '' else []) @ vf fmt ap,
                 warning_start := False\<rparr>)"
    using assms by (simp add: warning_emitted Let_def)
next
  show "newline \<in> set fmt \<and> \<not> warnings_are_fatal st \<Longrightarrow>
            warning vf w fmt ap st =
              Returns (st\<lparr>stderr := stderr st
                   @ (if warning_start st then ''sip5: '' @ wstr w @ '': '' else []) @ vf fmt ap,
                 warning_start := True\<rparr>)"
    using assms by (simp add: warning_emitted Let_def)
next
  show "newline \<notin> set fmt \<Longrightarrow>
            warning vf w fmt ap st =
              Returns (st\<lparr>stderr := stderr st
                   @ (if warning_start st then ''sip5: '' @ wstr w @ '': '' else []) @ vf fmt ap,
                 warning_start := False\<rparr>)"
    using assms by (simp add: warning_emitted Let_def)
next
  assume h: "warning_start st \<and> (\<forall>fr\<in>set frs. newline \<notin> set (fst fr)) \<and> newline \<in> set fmt"
  let ?mid = "st\<lparr>stderr := stderr st
                  @ (if frs \<noteq> [] \<and> warning_start st then ''sip5: '' @ wstr w @ '': '' else [])
                  @ concat (map (\<lambda>fr. vf (fst fr) (snd fr)) frs),
                warning_start := warning_start st \<and> frs = []\<rparr>"
  have frags: "warning_calls vf (map (Pair w) frs) st = Returns ?mid"
    using assms h by (intro warning_fragments) auto
  have mid: "warnings ?mid \<or> w = DeprecationWarning"
    using assms by simp
  show "warning_calls vf (map (Pair w) frs @ [(w, fmt, ap)]) st =
              (if warnings_are_fatal st
               then Exits 1 (st\<lparr>stderr := stderr st @ ''sip5: '' @ wstr w @ '': ''
                     @ concat (map (\<lambda>fr. vf (fst fr) (snd fr)) frs) @ vf fmt ap,
                   warning_start := False\<rparr>)
               else Returns (st\<lparr>stderr := stderr st @ ''sip5: '' @ wstr w @ '': ''
                     @ concat (map (\<lambda>fr. vf (fst fr) (snd fr)) frs) @ vf fmt ap,
                   warning_start := True\<rparr>))"
    unfolding warning_calls_append frags outcome.case warning_calls.simps
    by (subst warning_emitted [OF mid]) (use h in \<open>simp add: Let_def\<close>)
qed

theorem warning_completes_on_format_newline_witness:
  "(warnings (proc_init\<lparr>warnings := True\<rparr>) \<or> ParserWarning = DeprecationWarning) \<and>
   warning_calls printf_s
     [(ParserWarning, ''%s: '', [''f.sip'']), (ParserWarning, ''bad %s\<newline>'', [''x''])]
     (proc_init\<lparr>warnings := True\<rparr>) =
     Returns (proc_init\<lparr>warnings := True,
                stderr := ''sip5: Parser warning: f.sip: bad x\<newline>''\<rparr>) \<and>
   warning printf_s ParserWarning ''bad\<newline>'' []
     (proc_init\<lparr>warnings := True, warnings_are_fatal := True\<rparr>) =
     Exits 1 (proc_init\<lparr>warnings := True, warnings_are_fatal := True,
                stderr := ''sip5: Parser warning: bad\<newline>'', warning_start := False\<rparr>)"
proof -
  let ?st = "proc_init\<lparr>warnings := True\<rparr>"
  have on: "warnings ?st \<or> ParserWarning = DeprecationWarning"
    by simp
  have frs: "warning_start ?st \<and>
     (\<forall>fr\<in>set [(''%s: '', [''f.sip''])]. newline \<notin> set (fst fr)) \<and>
     newline \<in> set ''bad %s\<newline>''"
    by (simp add: proc_init_def newline_def)
  note msg = warning_completes_on_format_newline [OF on, of "''bad %s\<newline>''" printf_s
      "[''x'']" "[(''%s: '', [''f.sip''])]",
      THEN conjunct2, THEN conjunct2, THEN conjunct2, THEN mp, OF frs]
  have a: "warning_calls printf_s
     [(ParserWarning, ''%s: '', [''f.sip'']), (ParserWarning, ''bad %s\<newline>'', [''x''])] ?st =
     Returns (proc_init\<lparr>warnings := True,
                stderr := ''sip5: Parser warning: f.sip: bad x\<newline>''\<rparr>)"
    using msg by (simp add: proc_init_def)
  let ?sf = "proc_init\<lparr>warnings := True, warnings_are_fatal := True\<rparr>"
  have onf: "warnings ?sf \<or> ParserWarning = DeprecationWarning"
    by simp
  have nlf: "newline \<in> set ''bad\<newline>'' \<and> warnings_are_fatal ?sf"
    by (simp add: newline_def)
  note ex = warning_completes_on_format_newline [OF onf, of "''bad\<newline>''" printf_s
      "[]" "[]", THEN conjunct1, THEN mp, OF nlf]
  have b: "warning printf_s ParserWarning ''bad\<newline>'' [] ?sf =
     Exits 1 (proc_init\<lparr>warnings := True, warnings_are_fatal := True,
                stderr := ''sip5: Parser warning: bad\<newline>'', warning_start := False\<rparr>)"
    using ex by (simp add: proc_init_def)
  from on a b show ?thesis by blast
qed

text \<open>
  C4 as stated fails when the newline comes from an argument: the report of the format
  \<open>%s\<close> with the argument \<open>x\<newline>\<close> writes a text that holds a newline, and yet,
  with \<open>warnings_are_fatal\<close> set, the call returns and the \<open>start\<close> flag stays
  cleared.
\<close>

theorem warning_newline_in_argument:
  "newline \<in> set (printf_s ''%s'' [''x\<newline>'']) \<and>
   warning printf_s ParserWarning ''%s'' [''x\<newline>'']
     (proc_init\<lparr>warnings := True, warnings_are_fatal := True\<rparr>) =
     Returns (proc_init\<lparr>warnings := True, warnings_are_fatal := True,
                stderr := ''sip5: Parser warning: x\<newline>'', warning_start := False\<rparr>)"
  by (simp add: warning_def proc_init_def newline_def Let_def)

text \<open>
  C9. \<open>fatal\<close> writes the prefix \<open>sip5: \<close> unless \<open>fatalStart\<close> has written it
  already, then the formatted message, and exits with status 1; neither \<open>warnings\<close>
  nor \<open>warnings_are_fatal\<close> is read. A second \<open>fatalStart\<close> writes nothing.
\<close>

theorem fatal_always_exits:
  "fatal vf fmt ap st =
     Exits 1 (st\<lparr>stderr := stderr st @ (if fatalStart_start st then ''sip5: '' else [])
                    @ vf fmt ap,
                 fatalStart_start := False\<rparr>) \<and>
   fatalStart (fatalStart st) = fatalStart st \<and>
   stderr (fatalStart st) = stderr st @ (if fatalStart_start st then ''sip5: '' else []) \<and>
   \<not> fatalStart_start (fatalStart st)"
  by (simp add: fatal_def fatalStart_def Let_def)

theorem fatal_always_exits_witness:
  "fatal printf_s ''bad %s'' [''thing''] (proc_init\<lparr>warnings_are_fatal := False\<rparr>) =
     Exits 1 (proc_init\<lparr>stderr := ''sip5: bad thing'', fatalStart_start := False\<rparr>) \<and>
   fatal printf_s ''more'' [] (fatalStart proc_init) =
     Exits 1 (proc_init\<lparr>stderr := ''sip5: more'', fatalStart_start := False\<rparr>)"
proof -
  have "fatal printf_s ''bad %s'' [''thing''] (proc_init\<lparr>warnings_are_fatal := False\<rparr>) =
     Exits 1 (proc_init\<lparr>stderr := ''sip5: bad thing'', fatalStart_start := False\<rparr>)"
    using fatal_always_exits [of printf_s "''bad %s''" "[''thing'']"
        "proc_init\<lparr>warnings_are_fatal := False\<rparr>"]
    by (simp add: proc_init_def)
  moreover have "fatal printf_s ''more'' [] (fatalStart proc_init) =
     Exits 1 (proc_init\<lparr>stderr := ''sip5: more'', fatalStart_start := False\<rparr>)"
    using fatal_always_exits [of printf_s "''more''" "[]" "fatalStart proc_init"]
    by (simp add: proc_init_def fatalStart_def)
  ultimately show ?thesis by blast
qed

text \<open>
  C10. A \<open>ParserWarning\<close> reported while \<open>warnings\<close> is false leaves the whole state
  as it was: the output, the \<open>start\<close> flag and the process itself, whatever the format
  and whatever \<open>warnings_are_fatal\<close>. In any sequence of reports the suppressed ones
  can be dropped without changing the outcome, so a message of the other category that
  is under way is neither ended nor given a second label.
\<close>

theorem suppressed_warning_changes_nothing:
  assumes "\<not> warnings st"
  shows "warning vf ParserWarning fmt ap st = Returns st \<and>
         warning_calls vf cs st =
           warning_calls vf (filter (\<lambda>c. fst c \<noteq> ParserWarning) cs) st"
  using assms by (simp add: warning_suppressed warning_calls_skip_suppressed [symmetric])

theorem suppressed_warning_changes_nothing_witness:
  "\<not> warnings (proc_init\<lparr>warnings_are_fatal := True, warning_start := False\<rparr>) \<and>
   warning printf_s ParserWarning ''x\<newline>'' []
     (proc_init\<lparr>warnings_are_fatal := True, warning_start := False\<rparr>) =
     Returns (proc_init\<lparr>warnings_are_fatal := True, warning_start := False\<rparr>) \<and>
   warning_calls printf_s
     [(DeprecationWarning, ''old '', []), (ParserWarning, ''x\<newline>'', []),
      (DeprecationWarning, ''%s'', [''name''])]
     (proc_init\<lparr>warnings_are_fatal := True\<rparr>) =
   warning_calls printf_s
     [(DeprecationWarning, ''old '', []), (DeprecationWarning, ''%s'', [''name''])]
     (proc_init\<lparr>warnings_are_fatal := True\<rparr>)"
proof -
  have off: "\<not> warnings (proc_init\<lparr>warnings_are_fatal := True, warning_start := False\<rparr>)"
    "\<not> warnings (proc_init\<lparr>warnings_are_fatal := True\<rparr>)"
    by (simp_all add: proc_init_def)
  from suppressed_warning_changes_nothing [OF off(1), of printf_s "''x\<newline>''" "[]" "[]"]
  have a: "warning printf_s ParserWarning ''x\<newline>'' []
     (proc_init\<lparr>warnings_are_fatal := True, warning_start := False\<rparr>) =
     Returns (proc_init\<lparr>warnings_are_fatal := True, warning_start := False\<rparr>)"
    by blast
  from suppressed_warning_changes_nothing [OF off(2), of printf_s "[]" "[]"
      "[(DeprecationWarning, ''old '', []), (ParserWarning, ''x\<newline>'', []),
        (DeprecationWarning, ''%s'', [''name''])]"]
  have b: "warning_calls printf_s
     [(DeprecationWarning, ''old '', []), (ParserWarning, ''x\<newline>'', []),
      (DeprecationWarning, ''%s'', [''name''])]
     (proc_init\<lparr>warnings_are_fatal := True\<rparr>) =
   warning_calls printf_s
     [(DeprecationWarning, ''old '', []), (DeprecationWarning, ''%s'', [''name''])]
     (proc_init\<lparr>warnings_are_fatal := True\<rparr>)"
    by simp
  from off(1) a b show ?thesis by blast
qed

subsection \<open>Argument parsing and the method wrappers\<close>

lemma map_converted_Converted:
  "map_converted f x = Converted v \<longleftrightarrow> (\<exists>y. x = Converted y \<and> v = f y)"
  by (cases x) auto

lemma convert_unit_unit_of: "convert_unit api u a = Converted v \<Longrightarrow> unit_of v = u"
  by (cases u) (auto simp: map_converted_Converted)

lemma convert_args_Parsed: "convert_args api us as = Parsed vs \<Longrightarrow> map unit_of vs = us"
proof (induction api us as arbitrary: vs rule: convert_args.induct)
  case (2 api u us a as)
  then show ?case
    by (auto split: converted.splits parsed.splits dest: convert_unit_unit_of)
qed simp_all

lemma convert_args_all_converted:
  assumes "length us = length as"
    and "\<forall>i<length us. \<exists>v. convert_unit api (us ! i) (as ! i) = Converted v"
  shows "\<exists>vs. convert_args api us as = Parsed vs"
  using assms
proof (induction us as rule: list_induct2)
  case Nil
  then show ?case by simp
next
  case (Cons u us a as)
  from Cons.prems have "\<exists>v. convert_unit api ((u # us) ! 0) ((a # as) ! 0) = Converted v"
    by blast
  then obtain v where v: "convert_unit api u a = Converted v" by auto
  have "\<forall>i<length us. \<exists>v. convert_unit api (us ! i) (as ! i) = Converted v"
  proof (intro allI impI)
    fix i assume "i < length us"
    then have "Suc i < length (u # us)" by simp
    with Cons.prems have "\<exists>v. convert_unit api ((u # us) ! Suc i) ((a # as) ! Suc i) = Converted v"
      by blast
    then show "\<exists>v. convert_unit api (us ! i) (as ! i) = Converted v" by simp
  qed
  with Cons.IH obtain vs where "convert_args api us as = Parsed vs" by blast
  with v show ?case by simp
qed

lemma convert_args_first_failure:
  assumes "length us = length as"
    and "i < length us"
    and "convert_unit api (us ! i) (as ! i) = Failed e w"
    and "\<forall>j<i. \<exists>v. convert_unit api (us ! j) (as ! j) = Converted v"
  shows "\<exists>ws. convert_args api us as = ParseError e ws"
  using assms
proof (induction us as arbitrary: i rule: list_induct2)
  case Nil
  then show ?case by simp
next
  case (Cons u us a as)
  show ?case
  proof (cases i)
    case 0
    with Cons.prems show ?thesis by simp
  next
    case (Suc k)
    with Cons.prems have "\<exists>v. convert_unit api ((u # us) ! 0) ((a # as) ! 0) = Converted v"
      by blast
    then obtain v where v: "convert_unit api u a = Converted v" by auto
    have k: "k < length us" "convert_unit api (us ! k) (as ! k) = Failed e w"
      using Cons.prems Suc by simp_all
    have "\<forall>j<k. \<exists>v. convert_unit api (us ! j) (as ! j) = Converted v"
    proof (intro allI impI)
      fix j assume "j < k"
      then have "Suc j < i" using Suc by simp
      with Cons.prems have "\<exists>v. convert_unit api ((u # us) ! Suc j) ((a # as) ! Suc j) = Converted v"
        by blast
      then show "\<exists>v. convert_unit api (us ! j) (as ! j) = Converted v" by simp
    qed
    with Cons.IH [OF k] obtain ws where "convert_args api us as = ParseError e ws" by blast
    with v show ?thesis by simp
  qed
qed

lemma unit_of_iff:
  "unit_of v = U_I \<longleftrightarrow> (\<exists>x. v = V_I x)"
  "unit_of v = U_s \<longleftrightarrow> (\<exists>x. v = V_s x)"
  "unit_of v = U_p \<longleftrightarrow> (\<exists>x. v = V_p x)"
  "unit_of v = U_i \<longleftrightarrow> (\<exists>x. v = V_i x)"
  "unit_of v = U_fs \<longleftrightarrow> (\<exists>x. v = V_fs x)"
  "unit_of v = U_sipSpec \<longleftrightarrow> (\<exists>x. v = V_sipSpec x)"
  "unit_of v = U_stringList \<longleftrightarrow> (\<exists>x. v = V_stringList x)"
  by (cases v; simp)+

lemma PyArg_ParseTuple_Parsed:
  "PyArg_ParseTuple api fmt args = Parsed vs \<Longrightarrow> map unit_of vs = fmt"
  by (auto simp: PyArg_ParseTuple_def split: if_splits dest: convert_args_Parsed)

lemma py_transform_Parsed:
  assumes "PyArg_ParseTuple api [U_sipSpec, U_p] args = Parsed vs"
  shows "\<exists>c. py_transform api args st = (Inr PyNone, invoke c st) \<and>
             (\<forall>pt. hd vs = V_sipSpec pt \<longrightarrow> spec_of c = Known pt)"
proof -
  from PyArg_ParseTuple_Parsed [OF assms] obtain pt strict where
    "vs = [V_sipSpec pt, V_p strict]"
    by (auto simp: map_eq_Cons_conv unit_of_iff)
  with assms show ?thesis
    by (force simp: py_transform_def)
qed

lemma py_generateCode_Parsed:
  assumes "PyArg_ParseTuple api
             [U_sipSpec, U_fs, U_fs, U_p, U_p, U_p, U_i, U_stringList, U_stringList,
              U_p, U_s] args = Parsed vs"
  shows "\<exists>c. py_generateCode api args st = (Inr PyNone, invoke c st) \<and>
             spec_of c = Indeterminate"
proof -
  from PyArg_ParseTuple_Parsed [OF assms] obtain pt a1 a2 a3 a4 a5 a6 a7 a8 a9 a10 where
    "vs = [V_sipSpec pt, V_fs a1, V_fs a2, V_p a3, V_p a4, V_p a5, V_i a6, V_stringList a7,
           V_stringList a8, V_p a9, V_s a10]"
    by (auto simp: map_eq_Cons_conv unit_of_iff)
  with assms show ?thesis
    by (force simp: py_generateCode_def)
qed

lemma py_parse_Parsed:
  assumes "PyArg_ParseTuple api
             [U_fs, U_p, U_stringList, U_stringList, U_stringList, U_p, U_p] args = Parsed vs"
  shows "\<exists>c. py_parse api pt args st = (PyCapsule_New pt None, invoke c st) \<and>
             spec_of c = Known pt"
proof -
  from PyArg_ParseTuple_Parsed [OF assms] obtain a0 a1 a2 a3 a4 a5 a6 where
    "vs = [V_fs a0, V_p a1, V_stringList a2, V_stringList a3, V_stringList a4, V_p a5, V_p a6]"
    by (auto simp: map_eq_Cons_conv unit_of_iff)
  with assms show ?thesis
    by (force simp: py_parse_def Let_def)
qed


lemma trace_set_global: "trace (set_global i v st) = trace st"
  by (cases v) simp_all

lemma trace_store_globals: "trace (store_globals i ws st) = trace st"
proof (induction ws arbitrary: i st)
  case Nil
  then show ?case by simp
next
  case (Cons w ws)
  then show ?case by (cases w) (simp_all add: trace_set_global)
qed

lemma py_generateExtracts_Parsed:
  assumes "PyArg_ParseTuple api [U_sipSpec, U_stringList] args = Parsed vs"
  shows "\<exists>c. py_generateExtracts api args st = (Inr PyNone, invoke c st) \<and>
             (\<forall>pt. hd vs = V_sipSpec pt \<longrightarrow> spec_of c = Known pt)"
proof -
  from PyArg_ParseTuple_Parsed [OF assms] obtain pt x where
    "vs = [V_sipSpec pt, V_stringList x]"
    by (auto simp: map_eq_Cons_conv unit_of_iff)
  with assms show ?thesis
    by (force simp: py_generateExtracts_def)
qed

lemma py_generateAPI_Parsed:
  assumes "PyArg_ParseTuple api [U_sipSpec, U_fs] args = Parsed vs"
  shows "\<exists>c. py_generateAPI api args st = (Inr PyNone, invoke c st) \<and>
             (\<forall>pt. hd vs = V_sipSpec pt \<longrightarrow> spec_of c = Known pt)"
proof -
  from PyArg_ParseTuple_Parsed [OF assms] obtain pt x where
    "vs = [V_sipSpec pt, V_fs x]"
    by (auto simp: map_eq_Cons_conv unit_of_iff)
  with assms show ?thesis
    by (force simp: py_generateAPI_def)
qed

lemma py_generateXML_Parsed:
  assumes "PyArg_ParseTuple api [U_sipSpec, U_fs] args = Parsed vs"
  shows "\<exists>c. py_generateXML api args st = (Inr PyNone, invoke c st) \<and>
             (\<forall>pt. hd vs = V_sipSpec pt \<longrightarrow> spec_of c = Known pt)"
proof -
  from PyArg_ParseTuple_Parsed [OF assms] obtain pt x where
    "vs = [V_sipSpec pt, V_fs x]"
    by (auto simp: map_eq_Cons_conv unit_of_iff)
  with assms show ?thesis
    by (force simp: py_generateXML_def)
qed

lemma py_generateTypeHints_Parsed:
  assumes "PyArg_ParseTuple api [U_sipSpec, U_fs] args = Parsed vs"
  shows "\<exists>c. py_generateTypeHints api args st = (Inr PyNone, invoke c st) \<and>
             (\<forall>pt. hd vs = V_sipSpec pt \<longrightarrow> spec_of c = Known pt)"
proof -
  from PyArg_ParseTuple_Parsed [OF assms] obtain pt x where
    "vs = [V_sipSpec pt, V_fs x]"
    by (auto simp: map_eq_Cons_conv unit_of_iff)
  with assms show ?thesis
    by (force simp: py_generateTypeHints_def)
qed

lemma call_method_ParseError:
  assumes "PyArg_ParseTuple api (format_of m) args = ParseError e ws"
  shows "fst (call_method api pt m args st) = Inl e \<and>
         trace (snd (call_method api pt m args st)) = trace st \<and>
         (m \<noteq> M_set_globals \<longrightarrow> snd (call_method api pt m args st) = st)"
  using assms
  by (cases m)
    (simp_all add: py_set_globals_def py_parse_def py_transform_def py_generateCode_def
      py_generateExtracts_def py_generateAPI_def py_generateXML_def py_generateTypeHints_def
      trace_store_globals)

lemma call_method_Parsed_handle:
  assumes "PyArg_ParseTuple api (format_of m) args = Parsed vs"
    and "m \<noteq> M_set_globals" and "m \<noteq> M_parse"
  shows "\<exists>c. call_method api pt m args st = (Inr PyNone, invoke c st) \<and>
             (m \<noteq> M_generateCode \<longrightarrow> (\<forall>p. hd vs = V_sipSpec p \<longrightarrow> spec_of c = Known p)) \<and>
             (m = M_generateCode \<longrightarrow> spec_of c = Indeterminate)"
proof (cases m)
  case M_transform
  with assms(1) py_transform_Parsed [of api args vs st] show ?thesis by simp
next
  case M_generateCode
  with assms(1) py_generateCode_Parsed [of api args vs st] show ?thesis by simp
next
  case M_generateExtracts
  with assms(1) py_generateExtracts_Parsed [of api args vs st] show ?thesis by simp
next
  case M_generateAPI
  with assms(1) py_generateAPI_Parsed [of api args vs st] show ?thesis by simp
next
  case M_generateXML
  with assms(1) py_generateXML_Parsed [of api args vs st] show ?thesis by simp
next
  case M_generateTypeHints
  with assms(1) py_generateTypeHints_Parsed [of api args vs st] show ?thesis by simp
qed (use assms in simp_all)

lemma call_method_Parsed_trace:
  assumes "PyArg_ParseTuple api (format_of m) args = Parsed vs"
  shows "if m = M_set_globals
         then fst (call_method api pt m args st) = Inr PyNone \<and>
              trace (snd (call_method api pt m args st)) = trace st
         else \<exists>c. trace (snd (call_method api pt m args st)) = trace st @ [c]"
proof (cases "m = M_set_globals")
  case True
  with assms show ?thesis
    by (simp add: py_set_globals_def trace_store_globals)
next
  case False
  show ?thesis
  proof (cases "m = M_parse")
    case True
    with assms py_parse_Parsed [of api args vs pt st] show ?thesis
      by (auto simp: invoke_def)
  next
    case False
    with call_method_Parsed_handle [OF assms \<open>m \<noteq> M_set_globals\<close> False, of pt st]
      \<open>m \<noteq> M_set_globals\<close>
    show ?thesis by (auto simp: invoke_def)
  qed
qed






text \<open>
  C6, as the code has it. With the right number of arguments, when the conversion of
  some argument fails and all the arguments before it convert, the wrapper returns that
  conversion's exception and makes no call into the code generator; every wrapper but
  \<open>py_set_globals\<close> leaves the whole state as it was. When every argument converts,
  each wrapper but \<open>py_set_globals\<close> makes exactly one call; \<open>py_set_globals\<close>
  stores the globals and makes none. With a wrong number of arguments the wrapper fails
  before any conversion and makes no call.
\<close>

theorem dispatch_converts_then_invokes:
  "(length args = length (format_of m) \<longrightarrow>
     (\<forall>i e w. i < length args \<and>
        convert_unit api (format_of m ! i) (args ! i) = Failed e w \<and>
        (\<forall>j<i. \<exists>v. convert_unit api (format_of m ! j) (args ! j) = Converted v) \<longrightarrow>
        fst (call_method api pt m args st) = Inl e \<and>
        trace (snd (call_method api pt m args st)) = trace st \<and>
        (m \<noteq> M_set_globals \<longrightarrow> snd (call_method api pt m args st) = st)) \<and>
     ((\<forall>i<length args. \<exists>v. convert_unit api (format_of m ! i) (args ! i) = Converted v) \<longrightarrow>
        (if m = M_set_globals
         then fst (call_method api pt m args st) = Inr PyNone \<and>
              trace (snd (call_method api pt m args st)) = trace st
         else \<exists>c. trace (snd (call_method api pt m args st)) = trace st @ [c]))) \<and>
   (length args \<noteq> length (format_of m) \<longrightarrow>
      fst (call_method api pt m args st) =
        Inl (ArgCountError (length (format_of m)) (length args)) \<and>
      trace (snd (call_method api pt m args st)) = trace st)"
proof (intro conjI impI allI)
  fix i e w
  assume len: "length args = length (format_of m)"
    and fail: "i < length args \<and>
        convert_unit api (format_of m ! i) (args ! i) = Failed e w \<and>
        (\<forall>j<i. \<exists>v. convert_unit api (format_of m ! j) (args ! j) = Converted v)"
  from convert_args_first_failure [of "format_of m" args i api e w] len fail
  obtain ws where "convert_args api (format_of m) args = ParseError e ws"
    by auto
  with len have pe: "PyArg_ParseTuple api (format_of m) args = ParseError e ws"
    by (simp add: PyArg_ParseTuple_def)
  from call_method_ParseError [OF pe, of pt st]
  show "fst (call_method api pt m args st) = Inl e"
    and "trace (snd (call_method api pt m args st)) = trace st"
    by simp_all
  assume "m \<noteq> M_set_globals"
  with call_method_ParseError [OF pe, of pt st]
  show "snd (call_method api pt m args st) = st" by simp
next
  assume len: "length args = length (format_of m)"
    and ok: "\<forall>i<length args. \<exists>v. convert_unit api (format_of m ! i) (args ! i) = Converted v"
  from convert_args_all_converted [of "format_of m" args api] len ok
  obtain vs where "convert_args api (format_of m) args = Parsed vs"
    by auto
  with len have "PyArg_ParseTuple api (format_of m) args = Parsed vs"
    by (simp add: PyArg_ParseTuple_def)
  from call_method_Parsed_trace [OF this]
  show "if m = M_set_globals
         then fst (call_method api pt m args st) = Inr PyNone \<and>
              trace (snd (call_method api pt m args st)) = trace st
         else \<exists>c. trace (snd (call_method api pt m args st)) = trace st @ [c]" .
next
  assume "length args \<noteq> length (format_of m)"
  then have pe: "PyArg_ParseTuple api (format_of m) args =
    ParseError (ArgCountError (length (format_of m)) (length args))
      (map (\<lambda>_. None) (format_of m))"
    by (simp add: PyArg_ParseTuple_def)
  from call_method_ParseError [OF pe, of pt st]
  show "fst (call_method api pt m args st) =
        Inl (ArgCountError (length (format_of m)) (length args))"
    and "trace (snd (call_method api pt m args st)) = trace st"
    by simp_all
qed

theorem dispatch_converts_then_invokes_witness:
  "fst (call_method sample_cpython 7 M_generateExtracts [PyCapsule 7 None, PyLong 3] proc_init) =
     Inl (TypeError ''list of str expected'') \<and>
   snd (call_method sample_cpython 7 M_generateExtracts [PyCapsule 7 None, PyLong 3] proc_init) =
     proc_init \<and>
   (\<exists>c. trace (snd (call_method sample_cpython 7 M_generateExtracts
                      [PyCapsule 7 None, PyList [py_str ''a'']] proc_init)) =
          trace proc_init @ [c]) \<and>
   fst (call_method sample_cpython 7 M_generateExtracts [PyCapsule 7 None] proc_init) =
     Inl (ArgCountError 2 1)"
proof -
  have c0: "convert_unit sample_cpython U_sipSpec (PyCapsule 7 None) = Converted (V_sipSpec 7)"
    by code_simp
  have c1: "convert_unit sample_cpython U_stringList (PyLong 3) =
              Failed (TypeError ''list of str expected'') (Some (V_stringList SL_NULL))"
    by code_simp
  have c2: "convert_unit sample_cpython U_stringList (PyList [py_str ''a'']) =
              Converted (V_stringList (SL_Node ''a'' SL_NULL))"
    by code_simp
  have fail: "1 < length [PyCapsule 7 None, PyLong 3] \<and>
     convert_unit sample_cpython (format_of M_generateExtracts ! 1)
       ([PyCapsule 7 None, PyLong 3] ! 1) =
       Failed (TypeError ''list of str expected'') (Some (V_stringList SL_NULL)) \<and>
     (\<forall>j<1. \<exists>v. convert_unit sample_cpython (format_of M_generateExtracts ! j)
                   ([PyCapsule 7 None, PyLong 3] ! j) = Converted v)"
    using c0 c1 by simp
  have ok: "\<forall>i<length [PyCapsule 7 None, PyList [py_str ''a'']].
     \<exists>v. convert_unit sample_cpython (format_of M_generateExtracts ! i)
           ([PyCapsule 7 None, PyList [py_str ''a'']] ! i) = Converted v"
    using c0 c2 by (auto simp: less_Suc_eq)
  have len: "length [PyCapsule 7 None, PyLong 3] = length (format_of M_generateExtracts)"
    "length [PyCapsule 7 None, PyList [py_str ''a'']] = length (format_of M_generateExtracts)"
    "length [PyCapsule 7 None] \<noteq> length (format_of M_generateExtracts)"
    by simp_all
  note failing = dispatch_converts_then_invokes [of "[PyCapsule 7 None, PyLong 3]"
      M_generateExtracts sample_cpython 7 proc_init, THEN conjunct1, THEN mp, OF len(1),
      THEN conjunct1, THEN spec, THEN spec, THEN spec, THEN mp, OF fail]
  have a: "fst (call_method sample_cpython 7 M_generateExtracts [PyCapsule 7 None, PyLong 3]
             proc_init) = Inl (TypeError ''list of str expected'')"
    "snd (call_method sample_cpython 7 M_generateExtracts [PyCapsule 7 None, PyLong 3]
             proc_init) = proc_init"
    using failing by simp_all
  note passing = dispatch_converts_then_invokes [of "[PyCapsule 7 None, PyList [py_str ''a'']]"
      M_generateExtracts sample_cpython 7 proc_init, THEN conjunct1, THEN mp, OF len(2),
      THEN conjunct2, THEN mp, OF ok]
  have b: "\<exists>c. trace (snd (call_method sample_cpython 7 M_generateExtracts
                      [PyCapsule 7 None, PyList [py_str ''a'']] proc_init)) =
          trace proc_init @ [c]"
    using passing by simp
  note count = dispatch_converts_then_invokes [of "[PyCapsule 7 None]" M_generateExtracts
      sample_cpython 7 proc_init, THEN conjunct2, THEN mp, OF len(3)]
  have c: "fst (call_method sample_cpython 7 M_generateExtracts [PyCapsule 7 None] proc_init) =
     Inl (ArgCountError 2 1)"
    using count by simp
  from a b c show ?thesis by blast
qed

text \<open>
  C6 as stated fails for \<open>py_set_globals\<close>: all five arguments convert, the wrapper
  returns \<open>None\<close>, and no function of the code generator has been called.
\<close>

theorem set_globals_invokes_nothing:
  "fst (call_method sample_cpython 7 M_set_globals
          [PyLong 5, py_str ''5.0'', PyNone, PyBool True, PyBool False] proc_init) = Inr PyNone \<and>
   trace (snd (call_method sample_cpython 7 M_set_globals
          [PyLong 5, py_str ''5.0'', PyNone, PyBool True, PyBool False] proc_init)) = []"
  by (simp add: py_set_globals_def PyArg_ParseTuple_def sample_cpython_def py_str_def
      ascii_strict_def stringList_convertor_def trace_store_globals proc_init_def)



end
